theory Spec2Isabelle
  imports Main
begin

section \<open>Python values reaching a journey\<close>

text \<open>
  The module \<open>gtfspy/routing/forwardjourney.py\<close> holds one class, \<open>ForwardJourney\<close>.
  Its legs are \<open>Connection\<close> objects, a class defined in another module; the journey reads
  the attributes \<open>departure_stop\<close>, \<open>arrival_stop\<close>, \<open>departure_time\<close>, \<open>arrival_time\<close>,
  \<open>trip_id\<close>, \<open>is_walk\<close>, \<open>waiting_time\<close> and calls \<open>duration()\<close>. The attributes of a leg
  carry the prefix \<open>leg_\<close> here, the attributes of the journey keep their names.

  A trip identifier is a Python value: \<open>None\<close> (no trip), an integer or a string. Python
  tests such a value in two ways, and the module uses both: \<open>x is not None\<close>, and the
  truth value of \<open>x\<close> (\<open>None\<close>, \<open>0\<close> and the empty string are false).
\<close>

datatype pyid = IntId int | StrId string

fun truthy_id :: "pyid option \<Rightarrow> bool" where
  "truthy_id None = False"
| "truthy_id (Some (IntId n)) = (n \<noteq> 0)"
| "truthy_id (Some (StrId s)) = (s \<noteq> [])"

fun truthy_int :: "int option \<Rightarrow> bool" where
  "truthy_int None = False"
| "truthy_int (Some n) = (n \<noteq> 0)"

record connection =
  leg_departure_stop :: int
  leg_arrival_stop :: int
  leg_departure_time :: int
  leg_arrival_time :: int
  leg_trip_id :: "pyid option"
  leg_is_walk :: bool
  leg_waiting_time :: int

text \<open>
  Modelled from the spec: the method \<open>Connection.duration\<close>, whose class is outside the
  module; the data model gives \<open>duration() = arrival_time - departure_time\<close>.
\<close>

definition duration :: "connection \<Rightarrow> int" where
  "duration leg = leg_arrival_time leg - leg_departure_time leg"

text \<open>
  What a caller can hand to \<open>add_leg\<close>: a \<open>Connection\<close>, or some other Python value.
  \<open>isinstance(leg, Connection)\<close> holds for the first constructor only.
\<close>

datatype pyval = PyConnection connection | PyNone | PyInt int | PyStr string

fun isinstance_Connection :: "pyval \<Rightarrow> bool" where
  "isinstance_Connection (PyConnection c) = True"
| "isinstance_Connection v = False"

datatype error = AssertionError | TypeError | IndexError

section \<open>The journey and its construction\<close>

record journey =
  legs :: "connection list"
  departure_time :: "int option"
  arrival_time :: "int option"
  trip_ids :: "pyid set"
  n_boardings :: int

text \<open>
  \<open>add_leg\<close> mutates \<open>self\<close>; the model returns the outcome of the call (\<open>Inl\<close> the
  exception raised) together with the state of \<open>self\<close> when the call ends. Each \<open>let\<close>
  binding is one statement of the method, in the order of the source. Assertions are
  enabled (Python without \<open>-O\<close>).
\<close>

definition add_leg :: "journey \<Rightarrow> pyval \<Rightarrow> (error + unit) \<times> journey" where
  "add_leg self v =
     (case v of
        PyConnection leg \<Rightarrow>
          (let s1 = (if legs self = []
                     then self\<lparr>departure_time := Some (leg_departure_time leg)\<rparr>
                     else self);
               s2 = s1\<lparr>arrival_time := Some (leg_arrival_time leg)\<rparr>;
               s3 = (if truthy_id (leg_trip_id leg) \<and>
                        (if legs s2 = [] then True
                         else leg_trip_id leg \<noteq> leg_trip_id (last (legs s2)))
                     then s2\<lparr>n_boardings := n_boardings s2 + 1\<rparr>
                     else s2);
               s4 = s3\<lparr>arrival_time := Some (leg_arrival_time leg)\<rparr>;
               s5 = s4\<lparr>legs := legs s4 @ [leg]\<rparr>
           in (Inr (), s5))
      | _ \<Rightarrow> (Inl AssertionError, self))"

text \<open>The loop \<open>for leg in legs: self.add_leg(leg)\<close>; an exception ends it.\<close>

fun add_legs :: "journey \<Rightarrow> pyval list \<Rightarrow> (error + unit) \<times> journey" where
  "add_legs self [] = (Inr (), self)"
| "add_legs self (v # vs) =
     (case add_leg self v of
        (Inl e, self') \<Rightarrow> (Inl e, self')
      | (Inr u, self') \<Rightarrow> add_legs self' vs)"

definition ForwardJourney_init :: "pyval list option \<Rightarrow> (error + unit) \<times> journey" where
  "ForwardJourney_init legs_arg =
     (let self = \<lparr>legs = [], departure_time = None, arrival_time = None,
                  trip_ids = {}, n_boardings = 0\<rparr>
      in case legs_arg of
           None \<Rightarrow> (Inr (), self)
         | Some vs \<Rightarrow> add_legs self vs)"

section \<open>The accessors\<close>

text \<open>
  Every accessor returns \<open>Inr\<close> its value or \<open>Inl\<close> the exception it raises. Subtracting
  \<open>None\<close> raises \<open>TypeError\<close>; \<open>self.legs[-1]\<close> on an empty list raises \<open>IndexError\<close>.
\<close>

definition get_travel_time :: "journey \<Rightarrow> error + int" where
  "get_travel_time self =
     (case (arrival_time self, departure_time self) of
        (Some a, Some d) \<Rightarrow> Inr (a - d)
      | _ \<Rightarrow> Inl TypeError)"

definition get_transfers :: "journey \<Rightarrow> error + int" where
  "get_transfers self = Inr (max (n_boardings self - 1) 0)"

fun all_stops_loop :: "connection list \<Rightarrow> int list \<Rightarrow> int list" where
  "all_stops_loop [] all_stops = all_stops"
| "all_stops_loop (leg # rest) all_stops =
     all_stops_loop rest (all_stops @ [leg_departure_stop leg])"

definition get_all_stops :: "journey \<Rightarrow> error + int list" where
  "get_all_stops self =
     (let all_stops = all_stops_loop (legs self) []
      in if legs self = [] then Inl IndexError
         else Inr (all_stops @ [leg_arrival_stop (last (legs self))]))"

text \<open>
  The loop of \<open>get_transfer_stop_pairs\<close>, with its three variables: the list built so
  far, \<open>previous_arrival_stop\<close> and \<open>current_trip_id\<close>. The three tests of the
  condition have no effect, so the test \<open>previous_arrival_stop is not None\<close> is the
  \<open>case\<close> here, which also reads the stop.
\<close>

fun transfer_stop_pairs_loop ::
  "connection list \<Rightarrow> (int \<times> int) list \<Rightarrow> int option \<Rightarrow> pyid option \<Rightarrow> (int \<times> int) list" where
  "transfer_stop_pairs_loop [] pairs previous_arrival_stop current_trip_id = pairs"
| "transfer_stop_pairs_loop (leg # rest) pairs previous_arrival_stop current_trip_id =
     transfer_stop_pairs_loop rest
       (case previous_arrival_stop of
          Some p \<Rightarrow>
            (if leg_trip_id leg \<noteq> None \<and> leg_trip_id leg \<noteq> current_trip_id
             then pairs @ [(p, leg_departure_stop leg)] else pairs)
        | None \<Rightarrow> pairs)
       (Some (leg_arrival_stop leg))
       (leg_trip_id leg)"

definition get_transfer_stop_pairs :: "journey \<Rightarrow> error + (int \<times> int) list" where
  "get_transfer_stop_pairs self = Inr (transfer_stop_pairs_loop (legs self) [] None None)"

text \<open>
  The loop of \<open>get_waiting_times\<close>: \<open>if previous_arrival:\<close> tests the truth value of the
  previous arrival time.
\<close>

fun waiting_times_loop :: "connection list \<Rightarrow> int list \<Rightarrow> int option \<Rightarrow> int list" where
  "waiting_times_loop [] waiting_times previous_arrival = waiting_times"
| "waiting_times_loop (leg # rest) waiting_times previous_arrival =
     (let current_departure = leg_departure_time leg
      in waiting_times_loop rest
           (case previous_arrival of
              Some p \<Rightarrow>
                (if truthy_int (Some p) then waiting_times @ [current_departure - p]
                 else waiting_times)
            | None \<Rightarrow> waiting_times)
           (Some (leg_arrival_time leg)))"

definition get_waiting_times :: "journey \<Rightarrow> error + int list" where
  "get_waiting_times self = Inr (waiting_times_loop (legs self) [] None)"

definition get_total_waiting_time :: "journey \<Rightarrow> error + int" where
  "get_total_waiting_time self =
     (case get_waiting_times self of
        Inl e \<Rightarrow> Inl e
      | Inr waiting_times \<Rightarrow> Inr (sum_list waiting_times))"

text \<open>
  \<open>get_invehicle_times\<close> asserts that each leg is a \<open>Connection\<close>; the legs of a journey
  are connections by their type, so the assertion holds.
\<close>

fun invehicle_times_loop :: "connection list \<Rightarrow> int list \<Rightarrow> int list" where
  "invehicle_times_loop [] invehicle_times = invehicle_times"
| "invehicle_times_loop (leg # rest) invehicle_times =
     invehicle_times_loop rest
       (if leg_trip_id leg \<noteq> None then invehicle_times @ [duration leg]
        else invehicle_times)"

definition get_invehicle_times :: "journey \<Rightarrow> error + int list" where
  "get_invehicle_times self = Inr (invehicle_times_loop (legs self) [])"

definition get_total_invehicle_time :: "journey \<Rightarrow> error + int" where
  "get_total_invehicle_time self =
     (case get_invehicle_times self of
        Inl e \<Rightarrow> Inl e
      | Inr invehicle_times \<Rightarrow> Inr (sum_list invehicle_times))"

fun walking_times_loop :: "connection list \<Rightarrow> int list \<Rightarrow> int list" where
  "walking_times_loop [] walking_times = walking_times"
| "walking_times_loop (leg # rest) walking_times =
     walking_times_loop rest
       (if leg_is_walk leg then walking_times @ [duration leg - leg_waiting_time leg]
        else walking_times)"

definition get_walking_times :: "journey \<Rightarrow> error + int list" where
  "get_walking_times self = Inr (walking_times_loop (legs self) [])"

definition get_total_walking_time :: "journey \<Rightarrow> error + int" where
  "get_total_walking_time self =
     (case get_walking_times self of
        Inl e \<Rightarrow> Inl e
      | Inr walking_times \<Rightarrow> Inr (sum_list walking_times))"

section \<open>Dominance\<close>

text \<open>
  The times of a journey are \<open>None\<close> until the first leg; comparing \<open>None\<close> with \<open>>=\<close> or
  \<open><=\<close> raises \<open>TypeError\<close> (Python 3). \<open>and\<close> evaluates its second operand only when the
  first is true.
\<close>

definition py_ge :: "int option \<Rightarrow> int option \<Rightarrow> error + bool" where
  "py_ge a b = (case (a, b) of (Some x, Some y) \<Rightarrow> Inr (x \<ge> y) | _ \<Rightarrow> Inl TypeError)"

definition py_le :: "int option \<Rightarrow> int option \<Rightarrow> error + bool" where
  "py_le a b = (case (a, b) of (Some x, Some y) \<Rightarrow> Inr (x \<le> y) | _ \<Rightarrow> Inl TypeError)"

definition dominates_time :: "journey \<Rightarrow> journey \<Rightarrow> error + bool" where
  "dominates_time self other =
     (case py_ge (departure_time self) (departure_time other) of
        Inl e \<Rightarrow> Inl e
      | Inr b \<Rightarrow> if b then py_le (arrival_time self) (arrival_time other) else Inr False)"

definition dominates_boardings :: "journey \<Rightarrow> journey \<Rightarrow> bool" where
  "dominates_boardings self other = (n_boardings self \<le> n_boardings other)"

definition dominates :: "journey \<Rightarrow> journey \<Rightarrow> bool \<Rightarrow> bool \<Rightarrow> error + bool" where
  "dominates self other consider_time consider_boardings =
     (let rest = (if consider_boardings
                  then (if \<not> dominates_boardings self other then Inr False else Inr True)
                  else Inr True)
      in if consider_time
         then (case dominates_time self other of
                 Inl e \<Rightarrow> Inl e
               | Inr b \<Rightarrow> if \<not> b then Inr False else rest)
         else rest)"

section \<open>Reference definitions\<close>

text \<open>
  The specification's wording of two accessors, to be compared with the loops above.
  Waiting times: for each leg after the first, the gap between its departure and the
  arrival of the leg before it.
\<close>

definition waiting_times_spec :: "connection list \<Rightarrow> int list" where
  "waiting_times_spec ls =
     map (\<lambda>(p, l). leg_departure_time l - leg_arrival_time p) (zip ls (tl ls))"

text \<open>
  Transfer stop pairs, as the specification words them: a leg emits a pair when its trip
  identifier is not \<open>None\<close>, differs from the trip identifier of the most recently seen
  leg that had one, and a previous arrival stop exists. The last argument is that most
  recent trip identifier; a walking leg leaves it as it is.
\<close>

fun transfer_stop_pairs_spec_loop ::
  "connection list \<Rightarrow> (int \<times> int) list \<Rightarrow> int option \<Rightarrow> pyid option \<Rightarrow> (int \<times> int) list" where
  "transfer_stop_pairs_spec_loop [] pairs previous_arrival_stop last_trip_id = pairs"
| "transfer_stop_pairs_spec_loop (leg # rest) pairs previous_arrival_stop last_trip_id =
     transfer_stop_pairs_spec_loop rest
       (case previous_arrival_stop of
          Some p \<Rightarrow>
            (if leg_trip_id leg \<noteq> None \<and> leg_trip_id leg \<noteq> last_trip_id
             then pairs @ [(p, leg_departure_stop leg)] else pairs)
        | None \<Rightarrow> pairs)
       (Some (leg_arrival_stop leg))
       (if leg_trip_id leg \<noteq> None then leg_trip_id leg else last_trip_id)"

definition transfer_stop_pairs_spec :: "connection list \<Rightarrow> (int \<times> int) list" where
  "transfer_stop_pairs_spec ls = transfer_stop_pairs_spec_loop ls [] None None"

text \<open>
  A leg written out for the examples: departure stop, arrival stop, departure time,
  arrival time, trip identifier, walking flag, waiting time.
\<close>

definition mk_connection ::
  "int \<Rightarrow> int \<Rightarrow> int \<Rightarrow> int \<Rightarrow> pyid option \<Rightarrow> bool \<Rightarrow> int \<Rightarrow> connection" where
  "mk_connection ds as dt at tid walk wait =
     \<lparr>leg_departure_stop = ds, leg_arrival_stop = as, leg_departure_time = dt,
      leg_arrival_time = at, leg_trip_id = tid, leg_is_walk = walk, leg_waiting_time = wait\<rparr>"

lemmas run_defs = ForwardJourney_init_def add_leg_def Let_def mk_connection_def

section \<open>One call of \<open>add_leg\<close>, field by field\<close>

lemma add_leg_fst: "fst (add_leg self (PyConnection leg)) = Inr ()"
  by (simp add: add_leg_def Let_def)

lemma add_leg_legs: "legs (snd (add_leg self (PyConnection leg))) = legs self @ [leg]"
  by (simp add: add_leg_def Let_def)

lemma add_leg_departure_time:
  "departure_time (snd (add_leg self (PyConnection leg))) =
     (if legs self = [] then Some (leg_departure_time leg) else departure_time self)"
  by (simp add: add_leg_def Let_def)

lemma add_leg_arrival_time:
  "arrival_time (snd (add_leg self (PyConnection leg))) = Some (leg_arrival_time leg)"
  by (simp add: add_leg_def Let_def)

text \<open>
  The boarding counter grows exactly when the trip identifier is true as a Python value
  and there is no leg yet or the last leg has another trip identifier.
\<close>

lemma add_leg_n_boardings:
  "n_boardings (snd (add_leg self (PyConnection leg))) =
     (if truthy_id (leg_trip_id leg) \<and>
         (legs self = [] \<or> leg_trip_id leg \<noteq> leg_trip_id (last (legs self)))
      then n_boardings self + 1 else n_boardings self)"
  by (simp add: add_leg_def Let_def)

lemma add_leg_trip_ids: "trip_ids (snd (add_leg self v)) = trip_ids self"
  by (cases v) (simp_all add: add_leg_def Let_def)

section \<open>Sequences of appends\<close>

lemma add_legs_trip_ids: "trip_ids (snd (add_legs self vs)) = trip_ids self"
proof (induction vs arbitrary: self)
  case Nil
  show ?case by simp
next
  case (Cons v vs)
  obtain r s' where step: "add_leg self v = (r, s')"
    by (cases "add_leg self v")
  have keep: "trip_ids s' = trip_ids self"
    using add_leg_trip_ids [of self v] step by simp
  show ?case
  proof (cases r)
    case (Inl e)
    with step keep show ?thesis by simp
  next
    case (Inr u)
    with step keep Cons.IH [of s'] show ?thesis by simp
  qed
qed

text \<open>
  A run of the loop that ends without an exception was given connections only, and it
  leaves the legs, the departure time and the arrival time as follows.
\<close>

lemma add_legs_success:
  assumes "add_legs self vs = (Inr (), j)"
  shows "\<exists>ls. vs = map PyConnection ls \<and> legs j = legs self @ ls \<and>
           departure_time j =
             (if legs self = [] \<and> ls \<noteq> [] then Some (leg_departure_time (hd ls))
              else departure_time self) \<and>
           arrival_time j =
             (if ls = [] then arrival_time self else Some (leg_arrival_time (last ls)))"
  using assms
proof (induction vs arbitrary: self)
  case Nil
  then show ?case by simp
next
  case (Cons v vs)
  show ?case
  proof (cases v)
    case (PyConnection leg)
    define s' where "s' = snd (add_leg self (PyConnection leg))"
    have step: "add_leg self (PyConnection leg) = (Inr (), s')"
      using add_leg_fst [of self leg] by (simp add: s'_def prod_eq_iff)
    with Cons.prems PyConnection have run: "add_legs s' vs = (Inr (), j)"
      by simp
    from Cons.IH [OF run] obtain ls where
      ls: "vs = map PyConnection ls" "legs j = legs s' @ ls"
        "departure_time j =
           (if legs s' = [] \<and> ls \<noteq> [] then Some (leg_departure_time (hd ls))
            else departure_time s')"
        "arrival_time j =
           (if ls = [] then arrival_time s' else Some (leg_arrival_time (last ls)))"
      by blast
    have s': "legs s' = legs self @ [leg]"
      "departure_time s' =
         (if legs self = [] then Some (leg_departure_time leg) else departure_time self)"
      "arrival_time s' = Some (leg_arrival_time leg)"
      by (simp_all add: s'_def add_leg_legs add_leg_departure_time add_leg_arrival_time)
    show ?thesis
      by (rule exI [of _ "leg # ls"]) (simp add: PyConnection ls s')
  next
    case PyNone
    with Cons.prems show ?thesis by (simp add: add_leg_def)
  next
    case (PyInt n)
    with Cons.prems show ?thesis by (simp add: add_leg_def)
  next
    case (PyStr s)
    with Cons.prems show ?thesis by (simp add: add_leg_def)
  qed
qed

lemma add_legs_Connections: "fst (add_legs self (map PyConnection ls)) = Inr ()"
proof (induction ls arbitrary: self)
  case Nil
  show ?case by simp
next
  case (Cons l ls)
  define s' where "s' = snd (add_leg self (PyConnection l))"
  have "add_leg self (PyConnection l) = (Inr (), s')"
    using add_leg_fst [of self l] by (simp add: s'_def prod_eq_iff)
  then show ?case using Cons.IH [of s'] by simp
qed

text \<open>
  Constructing a journey from a list of legs is constructing it without legs and
  appending them one by one.
\<close>

lemma ForwardJourney_init_appends:
  "ForwardJourney_init (Some vs) = add_legs (snd (ForwardJourney_init None)) vs"
  by (simp add: ForwardJourney_init_def)

text \<open>A journey built from at least one leg has both of its times.\<close>

lemma built_times:
  assumes "ForwardJourney_init (Some vs) = (Inr (), j)" and "vs \<noteq> []"
  shows "\<exists>d a. departure_time j = Some d \<and> arrival_time j = Some a"
proof -
  from assms(1) have "add_legs \<lparr>legs = [], departure_time = None, arrival_time = None,
        trip_ids = {}, n_boardings = 0\<rparr> vs = (Inr (), j)"
    by (simp add: ForwardJourney_init_def)
  from add_legs_success [OF this] obtain ls where
    "vs = map PyConnection ls"
    "departure_time j = (if ls \<noteq> [] then Some (leg_departure_time (hd ls)) else None)"
    "arrival_time j = (if ls = [] then None else Some (leg_arrival_time (last ls)))"
    by auto
  with assms(2) show ?thesis by auto
qed

text \<open>A journey built without any leg is the one the constructor starts from.\<close>

lemma built_empty:
  assumes "ForwardJourney_init arg = (Inr (), j)" and "legs j = []"
  shows "j = \<lparr>legs = [], departure_time = None, arrival_time = None,
               trip_ids = {}, n_boardings = 0\<rparr>"
proof (cases arg)
  case None
  with assms(1) show ?thesis by (simp add: ForwardJourney_init_def)
next
  case (Some vs)
  let ?init = "\<lparr>legs = [], departure_time = None, arrival_time = None,
        trip_ids = {}, n_boardings = 0\<rparr>"
  from assms(1) Some have run: "add_legs ?init vs = (Inr (), j)"
    by (simp add: ForwardJourney_init_def)
  from add_legs_success [OF run] obtain ls where
    "vs = map PyConnection ls" "legs j = legs ?init @ ls" by blast
  with assms(2) have "vs = []" by simp
  with run show ?thesis by simp
qed

section \<open>The loops of the accessors in closed form\<close>

lemma all_stops_loop_eq: "all_stops_loop ls acc = acc @ map leg_departure_stop ls"
  by (induction ls arbitrary: acc) simp_all

lemma invehicle_times_loop_eq:
  "invehicle_times_loop ls acc = acc @ map duration (filter (\<lambda>l. leg_trip_id l \<noteq> None) ls)"
  by (induction ls arbitrary: acc) simp_all

lemma walking_times_loop_eq:
  "walking_times_loop ls acc =
     acc @ map (\<lambda>l. duration l - leg_waiting_time l) (filter leg_is_walk ls)"
  by (induction ls arbitrary: acc) simp_all

lemma transfer_stop_pairs_loop_eq:
  "transfer_stop_pairs_loop ls pairs (Some (leg_arrival_stop q)) (leg_trip_id q) =
     pairs @ [(leg_arrival_stop p, leg_departure_stop l).
                (p, l) \<leftarrow> zip (q # ls) ls,
                leg_trip_id l \<noteq> None \<and> leg_trip_id l \<noteq> leg_trip_id p]"
proof (induction ls arbitrary: pairs q)
  case Nil
  show ?case by simp
next
  case (Cons l ls)
  show ?case by (simp add: Cons.IH [of _ l])
qed

lemma waiting_times_loop_eq:
  "waiting_times_loop ls acc (Some (leg_arrival_time q)) =
     acc @ [leg_departure_time l - leg_arrival_time p.
              (p, l) \<leftarrow> zip (q # ls) ls, leg_arrival_time p \<noteq> 0]"
proof (induction ls arbitrary: acc q)
  case Nil
  show ?case by simp
next
  case (Cons l ls)
  show ?case by (simp add: Cons.IH [of _ l])
qed

text \<open>
  What \<open>get_waiting_times\<close> returns on any journey: the gaps after the legs whose
  arrival time is not \<open>0\<close>.
\<close>

lemma get_waiting_times_eq:
  "get_waiting_times self =
     Inr [leg_departure_time l - leg_arrival_time p.
            (p, l) \<leftarrow> zip (legs self) (tl (legs self)), leg_arrival_time p \<noteq> 0]"
proof (cases "legs self")
  case Nil
  then show ?thesis by (simp add: get_waiting_times_def)
next
  case (Cons q ls)
  then show ?thesis
    using waiting_times_loop_eq [of ls "[]" q] by (simp add: get_waiting_times_def)
qed

lemma dominates_Some:
  assumes "departure_time self = Some d" "arrival_time self = Some a"
    and "departure_time other = Some d'" "arrival_time other = Some a'"
  shows "dominates self other consider_time consider_boardings =
           Inr ((consider_time \<longrightarrow> d \<ge> d' \<and> a \<le> a') \<and>
                (consider_boardings \<longrightarrow> n_boardings self \<le> n_boardings other))"
  using assms
  by (simp add: dominates_def dominates_time_def dominates_boardings_def py_ge_def py_le_def
      Let_def)

section \<open>Appending legs\<close>

text \<open>
  Claim C1: \<open>add_leg\<close> is to add exactly 1 to \<open>n_boardings\<close> if and only if the trip
  identifier of the leg is not \<open>None\<close> and either no leg has been appended yet or the
  identifier differs from that of the leg before; otherwise \<open>n_boardings\<close> stays.

  The method tests \<open>leg.trip_id and ...\<close>, the truth value of the identifier, where
  \<open>get_invehicle_times\<close> and \<open>get_transfer_stop_pairs\<close> test \<open>leg.trip_id is not None\<close>
  (\<open>add_leg_n_boardings\<close> above is what the method does). On a new journey, a first
  leg with the trip identifier \<open>0\<close> is appended, its identifier is not \<open>None\<close>, there is
  no leg before it, and \<open>n_boardings\<close> is still \<open>0\<close> where the claim gives \<open>1\<close>.
\<close>

theorem add_leg_falsy_trip_id:
  "fst (ForwardJourney_init (Some
        [PyConnection (mk_connection 1 2 0 600 (Some (IntId 0)) False 0)])) = Inr () \<and>
   legs (snd (ForwardJourney_init None)) = [] \<and>
   leg_trip_id (mk_connection 1 2 0 600 (Some (IntId 0)) False 0) \<noteq> None \<and>
   n_boardings (snd (ForwardJourney_init None)) = 0 \<and>
   n_boardings (snd (ForwardJourney_init (Some
        [PyConnection (mk_connection 1 2 0 600 (Some (IntId 0)) False 0)]))) = 0"
  by (simp add: run_defs)

text \<open>
  Claim C5: after the legs \<open>L1 ... Ln\<close> (\<open>n \<ge> 1\<close>) have been appended in order to a new
  journey, \<open>departure_time\<close> is the departure time of \<open>L1\<close> and \<open>arrival_time\<close> is the
  arrival time of \<open>Ln\<close>. An append sets \<open>departure_time\<close> when the journey has no leg
  and leaves it alone when it has one; every append sets \<open>arrival_time\<close> to the arrival
  time of the new leg.
\<close>

theorem add_leg_times:
  "(ls \<noteq> [] \<longrightarrow>
      fst (ForwardJourney_init (Some (map PyConnection ls))) = Inr () \<and>
      departure_time (snd (ForwardJourney_init (Some (map PyConnection ls))))
        = Some (leg_departure_time (hd ls)) \<and>
      arrival_time (snd (ForwardJourney_init (Some (map PyConnection ls))))
        = Some (leg_arrival_time (last ls))) \<and>
   departure_time (snd (add_leg self (PyConnection leg)))
     = (if legs self = [] then Some (leg_departure_time leg) else departure_time self) \<and>
   arrival_time (snd (add_leg self (PyConnection leg))) = Some (leg_arrival_time leg)"
proof -
  let ?init = "\<lparr>legs = [], departure_time = None, arrival_time = None,
        trip_ids = {}, n_boardings = 0\<rparr>"
  have first: "fst (ForwardJourney_init (Some (map PyConnection ls))) = Inr () \<and>
      departure_time (snd (ForwardJourney_init (Some (map PyConnection ls))))
        = Some (leg_departure_time (hd ls)) \<and>
      arrival_time (snd (ForwardJourney_init (Some (map PyConnection ls))))
        = Some (leg_arrival_time (last ls))" if ne: "ls \<noteq> []"
  proof -
    define j where "j = snd (add_legs ?init (map PyConnection ls))"
    have run: "add_legs ?init (map PyConnection ls) = (Inr (), j)"
      using add_legs_Connections [of ?init ls] by (simp add: j_def prod_eq_iff)
    from add_legs_success [OF run] obtain ls' where
      ls': "map PyConnection ls = map PyConnection ls'"
        "departure_time j = (if ls' \<noteq> [] then Some (leg_departure_time (hd ls')) else None)"
        "arrival_time j = (if ls' = [] then None else Some (leg_arrival_time (last ls')))"
      by auto
    have "inj PyConnection" by (simp add: inj_def)
    with ls'(1) have "ls' = ls" by (simp add: inj_map_eq_map)
    with ls' ne run show ?thesis by (simp add: ForwardJourney_init_def)
  qed
  then show ?thesis
    by (simp add: add_leg_departure_time add_leg_arrival_time)
qed

text \<open>
  The three legs of the specification's scenario: the journey departs at \<open>0\<close>, the
  departure of the first leg, and arrives at \<open>1800\<close>, the arrival of the third.
\<close>

theorem add_leg_times_witness:
  "[mk_connection 1 2 0 600 (Some (StrId ''T1'')) False 0,
    mk_connection 2 3 600 1200 (Some (StrId ''T1'')) False 0,
    mk_connection 3 4 1260 1800 (Some (StrId ''T2'')) False 0] \<noteq> [] \<and>
   departure_time (snd (ForwardJourney_init (Some (map PyConnection
     [mk_connection 1 2 0 600 (Some (StrId ''T1'')) False 0,
      mk_connection 2 3 600 1200 (Some (StrId ''T1'')) False 0,
      mk_connection 3 4 1260 1800 (Some (StrId ''T2'')) False 0])))) = Some 0 \<and>
   arrival_time (snd (ForwardJourney_init (Some (map PyConnection
     [mk_connection 1 2 0 600 (Some (StrId ''T1'')) False 0,
      mk_connection 2 3 600 1200 (Some (StrId ''T1'')) False 0,
      mk_connection 3 4 1260 1800 (Some (StrId ''T2'')) False 0])))) = Some 1800"
  using add_leg_times [of
     "[mk_connection 1 2 0 600 (Some (StrId ''T1'')) False 0,
       mk_connection 2 3 600 1200 (Some (StrId ''T1'')) False 0,
       mk_connection 3 4 1260 1800 (Some (StrId ''T2'')) False 0]"]
  by (simp add: mk_connection_def)

text \<open>
  Claim C8: \<open>add_leg\<close> called with a value that is not a \<open>Connection\<close> raises (the
  assertion fails) and leaves every field of the journey as it was: the state returned
  with the error is the state given.
\<close>

theorem add_leg_rejects_non_Connection:
  assumes "\<not> isinstance_Connection v"
  shows "add_leg self v = (Inl AssertionError, self)"
  using assms by (cases v) (simp_all add: add_leg_def)

theorem add_leg_rejects_non_Connection_witness:
  "\<not> isinstance_Connection (PyInt 7) \<and>
   add_leg \<lparr>legs = [mk_connection 1 2 0 600 (Some (StrId ''T1'')) False 0],
            departure_time = Some 0, arrival_time = Some 600, trip_ids = {}, n_boardings = 1\<rparr>
     (PyInt 7) =
     (Inl AssertionError,
      \<lparr>legs = [mk_connection 1 2 0 600 (Some (StrId ''T1'')) False 0],
       departure_time = Some 0, arrival_time = Some 600, trip_ids = {}, n_boardings = 1\<rparr>)"
proof -
  have h: "\<not> isinstance_Connection (PyInt 7)" by simp
  show ?thesis using h add_leg_rejects_non_Connection [OF h] by simp
qed

text \<open>
  Claim C9: \<open>trip_ids\<close> is the empty set after the constructor, whatever legs it was
  given, and neither one call of \<open>add_leg\<close> nor a sequence of calls changes it, so it is
  empty after every sequence of appends to a new journey.
\<close>

theorem trip_ids_never_populated:
  "trip_ids (snd (ForwardJourney_init arg)) = {} \<and>
   trip_ids (snd (add_leg self v)) = trip_ids self \<and>
   trip_ids (snd (add_legs self vs)) = trip_ids self"
proof -
  have "trip_ids (snd (ForwardJourney_init arg)) = {}"
    by (cases arg) (simp_all add: ForwardJourney_init_def add_legs_trip_ids)
  then show ?thesis by (simp add: add_leg_trip_ids add_legs_trip_ids)
qed

text \<open>
  Claim C10: a leg whose trip identifier is not \<open>None\<close> but false as a Python value
  (\<open>0\<close>, the empty string) is appended without a change of \<open>n_boardings\<close>, whatever
  the journey, and \<open>get_invehicle_times\<close> of the journey with that leg ends with the
  duration of the leg.
\<close>

theorem falsy_trip_id_leg:
  assumes "leg_trip_id leg \<noteq> None" and "\<not> truthy_id (leg_trip_id leg)"
  shows "fst (add_leg self (PyConnection leg)) = Inr () \<and>
         n_boardings (snd (add_leg self (PyConnection leg))) = n_boardings self \<and>
         (\<exists>ts. get_invehicle_times self = Inr ts \<and>
               get_invehicle_times (snd (add_leg self (PyConnection leg)))
                 = Inr (ts @ [duration leg]))"
  using assms
  by (simp add: add_leg_fst add_leg_n_boardings add_leg_legs get_invehicle_times_def
      invehicle_times_loop_eq)

theorem falsy_trip_id_leg_witness:
  "leg_trip_id (mk_connection 2 3 600 900 (Some (IntId 0)) False 0) \<noteq> None \<and>
   \<not> truthy_id (leg_trip_id (mk_connection 2 3 600 900 (Some (IntId 0)) False 0)) \<and>
   n_boardings (snd (add_leg
      \<lparr>legs = [mk_connection 1 2 0 600 (Some (StrId ''T1'')) False 0],
       departure_time = Some 0, arrival_time = Some 600, trip_ids = {}, n_boardings = 1\<rparr>
      (PyConnection (mk_connection 2 3 600 900 (Some (IntId 0)) False 0)))) = 1 \<and>
   get_invehicle_times (snd (add_leg
      \<lparr>legs = [mk_connection 1 2 0 600 (Some (StrId ''T1'')) False 0],
       departure_time = Some 0, arrival_time = Some 600, trip_ids = {}, n_boardings = 1\<rparr>
      (PyConnection (mk_connection 2 3 600 900 (Some (IntId 0)) False 0)))) = Inr [600, 300]"
proof -
  have h1: "leg_trip_id (mk_connection 2 3 600 900 (Some (IntId 0)) False 0) \<noteq> None"
    by (simp add: mk_connection_def)
  have h2: "\<not> truthy_id (leg_trip_id (mk_connection 2 3 600 900 (Some (IntId 0)) False 0))"
    by (simp add: mk_connection_def)
  show ?thesis
    using h1 h2 falsy_trip_id_leg [OF h1 h2, of
      "\<lparr>legs = [mk_connection 1 2 0 600 (Some (StrId ''T1'')) False 0],
       departure_time = Some 0, arrival_time = Some 600, trip_ids = {}, n_boardings = 1\<rparr>"]
    by (simp add: get_invehicle_times_def duration_def mk_connection_def)
qed

section \<open>The accessors on built journeys\<close>

text \<open>
  Claim C3, as stated: \<open>get_transfer_stop_pairs\<close> emits a pair for a leg whose trip
  identifier is not \<open>None\<close> and differs from that of the most recently seen leg with a
  trip identifier. The loop sets \<open>current_trip_id\<close> at every leg, a walking leg too, so
  it compares with the leg just before. Ride on trip T1, walk, ride on T1 again: the
  method returns the pair \<open>(3, 3)\<close> for the third leg, the wording of the claim none.
\<close>

theorem get_transfer_stop_pairs_counterexample:
  "get_transfer_stop_pairs
     (snd (ForwardJourney_init (Some
        [PyConnection (mk_connection 1 2 0 600 (Some (StrId ''T1'')) False 0),
         PyConnection (mk_connection 2 3 600 900 None True 0),
         PyConnection (mk_connection 3 4 900 1500 (Some (StrId ''T1'')) False 0)])))
     = Inr [(3, 3)] \<and>
   transfer_stop_pairs_spec
     [mk_connection 1 2 0 600 (Some (StrId ''T1'')) False 0,
      mk_connection 2 3 600 900 None True 0,
      mk_connection 3 4 900 1500 (Some (StrId ''T1'')) False 0] = []"
  by (simp add: run_defs get_transfer_stop_pairs_def transfer_stop_pairs_spec_def)

text \<open>
  Claim C3, amended: \<open>get_transfer_stop_pairs\<close> returns, in leg order, the pair (arrival
  stop of the leg just before, departure stop of this leg) exactly for each leg after
  the first whose trip identifier is not \<open>None\<close> and differs from the trip identifier of
  the leg just before it, \<open>None\<close> when that leg is a walking leg. A walking leg emits no
  pair, and its arrival stop is the first component of the pair of the leg after it.
\<close>

theorem get_transfer_stop_pairs_adjacent:
  "get_transfer_stop_pairs self =
     Inr [(leg_arrival_stop p, leg_departure_stop l).
            (p, l) \<leftarrow> zip (legs self) (tl (legs self)),
            leg_trip_id l \<noteq> None \<and> leg_trip_id l \<noteq> leg_trip_id p]"
proof (cases "legs self")
  case Nil
  then show ?thesis by (simp add: get_transfer_stop_pairs_def)
next
  case (Cons q ls)
  then show ?thesis
    using transfer_stop_pairs_loop_eq [of ls "[]" q] by (simp add: get_transfer_stop_pairs_def)
qed

text \<open>
  Claim C4: on a journey of \<open>n \<ge> 1\<close> legs, \<open>get_waiting_times\<close> is to return the gap
  between each leg after the first and the leg before it, \<open>n - 1\<close> gaps, and
  \<open>get_total_waiting_time\<close> their sum.

  The loop keeps the previous arrival time in \<open>previous_arrival\<close>, \<open>None\<close> before the
  first leg, and tests \<open>if previous_arrival:\<close>, which is false for the arrival time \<open>0\<close>
  as well (\<open>get_waiting_times_eq\<close> above is what the method returns). Two legs, the
  first arriving at time \<open>0\<close>, the second departing at \<open>5\<close>: the method returns no gap
  and the total \<open>0\<close>, where the claim gives the one gap \<open>5\<close>.
\<close>

theorem get_waiting_times_zero_arrival:
  "fst (ForwardJourney_init (Some
        [PyConnection (mk_connection 1 2 0 0 (Some (StrId ''T1'')) False 0),
         PyConnection (mk_connection 2 3 5 10 (Some (StrId ''T2'')) False 0)])) = Inr () \<and>
   get_waiting_times
     (snd (ForwardJourney_init (Some
        [PyConnection (mk_connection 1 2 0 0 (Some (StrId ''T1'')) False 0),
         PyConnection (mk_connection 2 3 5 10 (Some (StrId ''T2'')) False 0)])))
     = Inr [] \<and>
   get_total_waiting_time
     (snd (ForwardJourney_init (Some
        [PyConnection (mk_connection 1 2 0 0 (Some (StrId ''T1'')) False 0),
         PyConnection (mk_connection 2 3 5 10 (Some (StrId ''T2'')) False 0)])))
     = Inr 0 \<and>
   waiting_times_spec
     [mk_connection 1 2 0 0 (Some (StrId ''T1'')) False 0,
      mk_connection 2 3 5 10 (Some (StrId ''T2'')) False 0] = [5]"
  by (simp add: run_defs get_waiting_times_def get_total_waiting_time_def
      waiting_times_spec_def)

text \<open>
  Claim C6, as stated: every accessor fails on a journey without legs. \<open>get_transfers\<close>
  on a new journey returns \<open>0\<close>.
\<close>

theorem get_transfers_empty_counterexample:
  "legs (snd (ForwardJourney_init None)) = [] \<and>
   get_transfers (snd (ForwardJourney_init None)) = Inr 0"
  by (simp add: ForwardJourney_init_def get_transfers_def)

text \<open>
  Claim C6, amended: on a journey with zero legs, \<open>get_travel_time\<close> and
  \<open>get_all_stops\<close> fail with an error (\<open>TypeError\<close>, \<open>IndexError\<close>); \<open>get_transfers\<close>
  returns \<open>0\<close>, \<open>get_transfer_stop_pairs\<close>, \<open>get_waiting_times\<close>, \<open>get_invehicle_times\<close>
  and \<open>get_walking_times\<close> return the empty list, and \<open>get_total_waiting_time\<close>,
  \<open>get_total_invehicle_time\<close> and \<open>get_total_walking_time\<close> return \<open>0\<close>.
\<close>

theorem empty_journey_accessors:
  assumes "ForwardJourney_init arg = (Inr (), j)" and "legs j = []"
  shows "get_travel_time j = Inl TypeError \<and>
         get_all_stops j = Inl IndexError \<and>
         get_transfers j = Inr 0 \<and>
         get_transfer_stop_pairs j = Inr [] \<and>
         get_waiting_times j = Inr [] \<and>
         get_total_waiting_time j = Inr 0 \<and>
         get_invehicle_times j = Inr [] \<and>
         get_total_invehicle_time j = Inr 0 \<and>
         get_walking_times j = Inr [] \<and>
         get_total_walking_time j = Inr 0"
proof -
  note j = built_empty [OF assms]
  have "get_travel_time j = Inl TypeError"
    by (simp add: j get_travel_time_def)
  moreover have "get_all_stops j = Inl IndexError"
    by (simp add: j get_all_stops_def)
  moreover have "get_transfers j = Inr 0"
    by (simp add: j get_transfers_def)
  moreover have "get_transfer_stop_pairs j = Inr []"
    by (simp add: j get_transfer_stop_pairs_def)
  moreover have "get_waiting_times j = Inr []"
    by (simp add: j get_waiting_times_def)
  moreover have "get_total_waiting_time j = Inr 0"
    by (simp add: j get_total_waiting_time_def get_waiting_times_def)
  moreover have "get_invehicle_times j = Inr []"
    by (simp add: j get_invehicle_times_def)
  moreover have "get_total_invehicle_time j = Inr 0"
    by (simp add: j get_total_invehicle_time_def get_invehicle_times_def)
  moreover have "get_walking_times j = Inr []"
    by (simp add: j get_walking_times_def)
  moreover have "get_total_walking_time j = Inr 0"
    by (simp add: j get_total_walking_time_def get_walking_times_def)
  ultimately show ?thesis by simp
qed

theorem empty_journey_accessors_witness:
  "ForwardJourney_init None =
     (Inr (), \<lparr>legs = [], departure_time = None, arrival_time = None,
               trip_ids = {}, n_boardings = 0\<rparr>) \<and>
   get_travel_time \<lparr>legs = [], departure_time = None, arrival_time = None,
               trip_ids = {}, n_boardings = 0\<rparr> = Inl TypeError \<and>
   get_total_waiting_time \<lparr>legs = [], departure_time = None, arrival_time = None,
               trip_ids = {}, n_boardings = 0\<rparr> = Inr 0"
proof -
  have h: "ForwardJourney_init None =
     (Inr (), \<lparr>legs = [], departure_time = None, arrival_time = None,
               trip_ids = {}, n_boardings = 0\<rparr>)"
    by (simp add: ForwardJourney_init_def)
  show ?thesis using h empty_journey_accessors [OF h] by simp
qed

section \<open>Dominance of built journeys\<close>

text \<open>
  Claim C2: for two journeys built from at least one leg each and any setting of the two
  flags, \<open>dominates\<close> returns true if and only if (with \<open>consider_time\<close>) self departs no
  earlier and arrives no later than other, and (with \<open>consider_boardings\<close>) self has no
  more boardings than other. With both flags off it returns true for any two journeys.
\<close>

theorem dominates_iff:
  assumes "ForwardJourney_init (Some vs) = (Inr (), self)" and "vs \<noteq> []"
    and "ForwardJourney_init (Some ws) = (Inr (), other)" and "ws \<noteq> []"
  shows "(\<exists>d a d' a'.
            departure_time self = Some d \<and> arrival_time self = Some a \<and>
            departure_time other = Some d' \<and> arrival_time other = Some a' \<and>
            dominates self other consider_time consider_boardings =
              Inr ((consider_time \<longrightarrow> d \<ge> d' \<and> a \<le> a') \<and>
                   (consider_boardings \<longrightarrow> n_boardings self \<le> n_boardings other))) \<and>
         dominates j1 j2 False False = Inr True"
proof -
  from built_times [OF assms(1,2)] obtain d a where
    s: "departure_time self = Some d" "arrival_time self = Some a" by blast
  from built_times [OF assms(3,4)] obtain d' a' where
    t: "departure_time other = Some d'" "arrival_time other = Some a'" by blast
  have "dominates j1 j2 False False = Inr True"
    by (simp add: dominates_def)
  with s t dominates_Some [OF s t] show ?thesis by simp
qed

text \<open>
  The specification's scenario: a journey from \<open>100\<close> to \<open>500\<close> with one boarding
  dominates a journey from \<open>50\<close> to \<open>600\<close> with two.
\<close>

theorem dominates_iff_witness:
  "ForwardJourney_init (Some
      [PyConnection (mk_connection 1 2 100 500 (Some (StrId ''T1'')) False 0)])
     = (Inr (), \<lparr>legs = [mk_connection 1 2 100 500 (Some (StrId ''T1'')) False 0],
                 departure_time = Some 100, arrival_time = Some 500, trip_ids = {},
                 n_boardings = 1\<rparr>) \<and>
   ForwardJourney_init (Some
      [PyConnection (mk_connection 1 2 50 300 (Some (StrId ''T1'')) False 0),
       PyConnection (mk_connection 2 3 300 600 (Some (StrId ''T2'')) False 0)])
     = (Inr (), \<lparr>legs = [mk_connection 1 2 50 300 (Some (StrId ''T1'')) False 0,
                         mk_connection 2 3 300 600 (Some (StrId ''T2'')) False 0],
                 departure_time = Some 50, arrival_time = Some 600, trip_ids = {},
                 n_boardings = 2\<rparr>) \<and>
   dominates
     \<lparr>legs = [mk_connection 1 2 100 500 (Some (StrId ''T1'')) False 0],
      departure_time = Some 100, arrival_time = Some 500, trip_ids = {}, n_boardings = 1\<rparr>
     \<lparr>legs = [mk_connection 1 2 50 300 (Some (StrId ''T1'')) False 0,
              mk_connection 2 3 300 600 (Some (StrId ''T2'')) False 0],
      departure_time = Some 50, arrival_time = Some 600, trip_ids = {}, n_boardings = 2\<rparr>
     True True = Inr True"
proof -
  have h1: "ForwardJourney_init (Some
      [PyConnection (mk_connection 1 2 100 500 (Some (StrId ''T1'')) False 0)])
     = (Inr (), \<lparr>legs = [mk_connection 1 2 100 500 (Some (StrId ''T1'')) False 0],
                 departure_time = Some 100, arrival_time = Some 500, trip_ids = {},
                 n_boardings = 1\<rparr>)"
    by (simp add: run_defs)
  have h2: "ForwardJourney_init (Some
      [PyConnection (mk_connection 1 2 50 300 (Some (StrId ''T1'')) False 0),
       PyConnection (mk_connection 2 3 300 600 (Some (StrId ''T2'')) False 0)])
     = (Inr (), \<lparr>legs = [mk_connection 1 2 50 300 (Some (StrId ''T1'')) False 0,
                         mk_connection 2 3 300 600 (Some (StrId ''T2'')) False 0],
                 departure_time = Some 50, arrival_time = Some 600, trip_ids = {},
                 n_boardings = 2\<rparr>)"
    by (simp add: run_defs)
  show ?thesis
    using h1 h2 dominates_iff [OF h1 _ h2 _, of True True]
    by simp
qed

text \<open>
  Claim C7: a journey built from at least one leg dominates itself, for every setting
  of the two flags.
\<close>

theorem dominates_refl:
  assumes "ForwardJourney_init (Some vs) = (Inr (), j)" and "vs \<noteq> []"
  shows "dominates j j consider_time consider_boardings = Inr True"
proof -
  from built_times [OF assms] obtain d a where
    s: "departure_time j = Some d" "arrival_time j = Some a" by blast
  show ?thesis using dominates_Some [OF s s] by simp
qed

theorem dominates_refl_witness:
  "ForwardJourney_init (Some
      [PyConnection (mk_connection 1 2 0 600 (Some (StrId ''T1'')) False 0)])
     = (Inr (), \<lparr>legs = [mk_connection 1 2 0 600 (Some (StrId ''T1'')) False 0],
                 departure_time = Some 0, arrival_time = Some 600, trip_ids = {},
                 n_boardings = 1\<rparr>) \<and>
   dominates
     \<lparr>legs = [mk_connection 1 2 0 600 (Some (StrId ''T1'')) False 0],
      departure_time = Some 0, arrival_time = Some 600, trip_ids = {}, n_boardings = 1\<rparr>
     \<lparr>legs = [mk_connection 1 2 0 600 (Some (StrId ''T1'')) False 0],
      departure_time = Some 0, arrival_time = Some 600, trip_ids = {}, n_boardings = 1\<rparr>
     True True = Inr True"
proof -
  have h: "ForwardJourney_init (Some
      [PyConnection (mk_connection 1 2 0 600 (Some (StrId ''T1'')) False 0)])
     = (Inr (), \<lparr>legs = [mk_connection 1 2 0 600 (Some (StrId ''T1'')) False 0],
                 departure_time = Some 0, arrival_time = Some 600, trip_ids = {},
                 n_boardings = 1\<rparr>)"
    by (simp add: run_defs)
  show ?thesis using h dominates_refl [OF h, of True True] by simp
qed

end
